theory Spec2Isabelle
  imports Main "HOL-Library.Word" "HOL-Library.Sublist"
begin

section \<open>JavaScript values the program handles\<close>

text \<open>
  A JavaScript string is a sequence of UTF-16 code units; \<open>length\<close> counts code units and
  \<open>trim\<close> inspects them one at a time. The string literals of the source are ASCII apart
  from three emoji, which are written as their code units.
\<close>

type_synonym code_unit = "16 word"
type_synonym jsstring = "code_unit list"

definition lit :: "string \<Rightarrow> jsstring" where
  "lit s = map (\<lambda>c. of_nat (of_char c)) s"

text \<open>
  \<open>String.prototype.trim\<close> strips WhiteSpace and LineTerminator code points from both
  ends: TAB, LF, VT, FF, CR, SP, NBSP, U+1680, U+2000..U+200A, LS, PS, U+202F, U+205F,
  U+3000 and the byte order mark U+FEFF. All of them are single code units.
\<close>

definition isWhiteSpace :: "code_unit \<Rightarrow> bool" where
  "isWhiteSpace c \<longleftrightarrow>
     c \<in> set [0x0009, 0x000A, 0x000B, 0x000C, 0x000D, 0x0020, 0x00A0, 0x1680,
              0x2000, 0x2001, 0x2002, 0x2003, 0x2004, 0x2005, 0x2006, 0x2007,
              0x2008, 0x2009, 0x200A, 0x2028, 0x2029, 0x202F, 0x205F, 0x3000, 0xFEFF]"

definition trim :: "jsstring \<Rightarrow> jsstring" where
  "trim s = rev (dropWhile isWhiteSpace (rev (dropWhile isWhiteSpace s)))"

text \<open>
  \<open>Array.prototype.join(sep)\<close>: the elements in index order, the separator between each
  two neighbours.
\<close>

fun join :: "jsstring \<Rightarrow> jsstring list \<Rightarrow> jsstring" where
  "join sep [] = []"
| "join sep [x] = x"
| "join sep (x # y # ys) = x @ sep @ join sep (y # ys)"

text \<open>
  The numbers the program renders are an exit status, an HTTP status and, at times, a
  share identifier that parsed as a number: integers. A template literal renders an
  integer of magnitude below \<open>10^21\<close> in decimal, with a minus sign when negative.
\<close>

definition digit :: "nat \<Rightarrow> code_unit" where
  "digit d = of_nat (48 + d)"

fun natToString :: "nat \<Rightarrow> jsstring" where
  "natToString n = (if n < 10 then [digit n] else natToString (n div 10) @ [digit (n mod 10)])"

declare natToString.simps [simp del]

definition numberToString :: "int \<Rightarrow> jsstring" where
  "numberToString i = (if i < 0 then lit ''-'' @ natToString (nat (- i)) else natToString (nat i))"

section \<open>types.ts: the data model\<close>

text \<open>
  A value of unknown type, as far as the program looks into it. The parameter is the
  representation of objects: the declared response shape for \<open>response.data\<close>, a
  property bag for tool arguments. Numbers are integers here, as exit and HTTP statuses
  are; \<open>NaN\<close> and fractions are left out.
\<close>

datatype 'o JsValue =
    JsUndefined
  | JsNull
  | JsBoolean bool
  | JsNumber int
  | JsString jsstring
  | JsObject 'o

fun falsy :: "'o JsValue \<Rightarrow> bool" where
  "falsy JsUndefined = True"
| "falsy JsNull = True"
| "falsy (JsBoolean b) = (\<not> b)"
| "falsy (JsNumber n) = (n = 0)"
| "falsy (JsString s) = (s = [])"
| "falsy (JsObject obj) = False"

fun typeof :: "'o JsValue \<Rightarrow> jsstring" where
  "typeof JsUndefined = lit ''undefined''"
| "typeof JsNull = lit ''object''"
| "typeof (JsBoolean b) = lit ''boolean''"
| "typeof (JsNumber n) = lit ''number''"
| "typeof (JsString s) = lit ''string''"
| "typeof (JsObject obj) = lit ''object''"

text \<open>
  Tool arguments arrive as a parsed JSON value: a plain object is a list of own properties,
  an array a list of elements. \<open>key in obj\<close> and \<open>obj.key\<close> are read on own properties;
  the two keys the program asks for, \<open>code\<close> and \<open>withVet\<close>, are not inherited from
  \<open>Object.prototype\<close> and are not keys of an array.
\<close>

datatype Bag = Bag "(jsstring \<times> Bag JsValue) list" | Items "Bag JsValue list"

type_synonym Unknown = "Bag JsValue"

fun properties :: "Unknown \<Rightarrow> (jsstring \<times> Unknown) list" where
  "properties (JsObject (Bag ps)) = ps"
| "properties v = []"

text \<open>
  \<open>String(v)\<close>, which is also what a template literal makes of \<open>v\<close>. A plain object renders
  as \<open>[object Object]\<close>; an array renders its elements separated by commas, \<open>null\<close> and
  \<open>undefined\<close> elements as nothing. The rendering of a number is the decimal one, which is
  JavaScript's for integers of magnitude below \<open>10^21\<close>.
\<close>

function toStringJs :: "Unknown \<Rightarrow> jsstring" where
  "toStringJs JsUndefined = lit ''undefined''"
| "toStringJs JsNull = lit ''null''"
| "toStringJs (JsBoolean b) = (if b then lit ''true'' else lit ''false'')"
| "toStringJs (JsNumber n) = numberToString n"
| "toStringJs (JsString s) = s"
| "toStringJs (JsObject (Bag ps)) = lit ''[object Object]''"
| "toStringJs (JsObject (Items xs)) =
     join (lit '','')
       (map (\<lambda>x. if x = JsUndefined \<or> x = JsNull then [] else toStringJs x) xs)"
  by pat_completeness auto
termination
proof (relation "measure (size_JsValue size)")
  show "wf (measure (size_JsValue size))"
    by simp
next
  fix xs :: "Unknown list" and x :: Unknown
  assume "x \<in> set xs"
  then have "size_JsValue size x \<le> size_list (size_JsValue size) xs"
    by (rule size_list_estimation') simp
  then show "(x, JsObject (Items xs)) \<in> measure (size_JsValue size)"
    by simp
qed

definition hasProperty :: "jsstring \<Rightarrow> Unknown \<Rightarrow> bool" where
  "hasProperty key v \<longleftrightarrow> key \<in> set (map fst (properties v))"

definition getProperty :: "jsstring \<Rightarrow> Unknown \<Rightarrow> Unknown" where
  "getProperty key v = (case map_of (properties v) key of Some x \<Rightarrow> x | None \<Rightarrow> JsUndefined)"

datatype EventKind = stdout | stderr | exit

record GoPlaygroundEvent =
  Message :: jsstring
  Kind :: EventKind
  Delay :: int

text \<open>
  \<open>Events?: readonly GoPlaygroundEvent[] | null\<close>: the field may be missing, \<open>null\<close> or
  an array.
\<close>

datatype EventsField = EventsAbsent | EventsNull | EventsArray "GoPlaygroundEvent list"

record GoPlaygroundResponse =
  Errors :: jsstring
  Events :: EventsField
  Status :: int
  IsTest :: bool
  TestsFailed :: int
  VetOK :: "bool option"

text \<open>
  What the HTTP client hands over as \<open>response.data\<close>: an object of the declared shape,
  or one of the values the first guard of \<open>processRunResponse\<close> is written for.
\<close>

type_synonym ResponseData = "GoPlaygroundResponse JsValue"

record GoPlaygroundRunRequest =
  version :: int
  body :: jsstring
  withVet :: bool

text \<open>
  The discriminated union \<open>MCPGoPlaygroundResult\<close>. \<open>exitCode\<close> is required on a success
  and optional on a failure; \<open>shareUrl\<close> is optional on both. The field \<open>output\<close> is
  \<open>outputText\<close> here and the optional exit code of a failure is \<open>exitCodeOpt\<close>.
\<close>

datatype MCPGoPlaygroundResult =
    success: Success (outputText: jsstring) (exitCode: int) (shareUrl: "jsstring option")
  | Failure (errors: jsstring) (exitCodeOpt: "int option") (shareUrl: "jsstring option")

record GoPlaygroundConfig =
  baseUrl :: jsstring
  frontendUrl :: jsstring
  timeout :: int

text \<open>
  \<open>Partial<GoPlaygroundConfig>\<close>: each key is there with a value, or not there. A key that
  is there with the value \<open>undefined\<close> is not among the configurations here.
\<close>

record PartialConfig =
  baseUrlOpt :: "jsstring option"
  frontendUrlOpt :: "jsstring option"
  timeoutOpt :: "int option"

datatype ToolName = RUN_GO_CODE | SHARE_GO_CODE | RUN_AND_SHARE_GO_CODE

fun TOOL_NAMES :: "ToolName \<Rightarrow> jsstring" where
  "TOOL_NAMES RUN_GO_CODE = lit ''run_go_code''"
| "TOOL_NAMES SHARE_GO_CODE = lit ''share_go_code''"
| "TOOL_NAMES RUN_AND_SHARE_GO_CODE = lit ''run_and_share_go_code''"

definition toolNameValues :: "ToolName list" where
  "toolNameValues = [RUN_GO_CODE, SHARE_GO_CODE, RUN_AND_SHARE_GO_CODE]"

datatype GoPlaygroundErrorCode =
  NETWORK_ERROR | COMPILATION_ERROR | RUNTIME_ERROR | VALIDATION_ERROR | SHARE_ERROR

fun errorCodeText :: "GoPlaygroundErrorCode \<Rightarrow> jsstring" where
  "errorCodeText NETWORK_ERROR = lit ''NETWORK_ERROR''"
| "errorCodeText COMPILATION_ERROR = lit ''COMPILATION_ERROR''"
| "errorCodeText RUNTIME_ERROR = lit ''RUNTIME_ERROR''"
| "errorCodeText VALIDATION_ERROR = lit ''VALIDATION_ERROR''"
| "errorCodeText SHARE_ERROR = lit ''SHARE_ERROR''"

text \<open>
  \<open>GoPlaygroundError\<close>; its \<open>name\<close> field is the constant \<open>'GoPlaygroundError'\<close>.
\<close>

record GoPlaygroundError =
  message :: jsstring
  code :: GoPlaygroundErrorCode
  statusCode :: "int option"

definition createGoPlaygroundError ::
  "jsstring \<Rightarrow> GoPlaygroundErrorCode \<Rightarrow> int option \<Rightarrow> GoPlaygroundError" where
  "createGoPlaygroundError msg c sc = \<lparr>message = msg, code = c, statusCode = sc\<rparr>"

datatype ('a, 'e) Result = ResultSuccess (data: 'a) | ResultFailure (error: 'e)

definition isGoCode :: "Unknown \<Rightarrow> bool" where
  "isGoCode v \<longleftrightarrow>
     typeof v = lit ''string'' \<and> (case v of JsString s \<Rightarrow> length (trim s) > 0 | _ \<Rightarrow> False)"

definition isValidToolName :: "Unknown \<Rightarrow> bool" where
  "isValidToolName v \<longleftrightarrow>
     typeof v = lit ''string'' \<and>
     (case v of JsString s \<Rightarrow> s \<in> set (map TOOL_NAMES toolNameValues) | _ \<Rightarrow> False)"

definition isRunGoCodeArgs :: "Unknown \<Rightarrow> bool" where
  "isRunGoCodeArgs args \<longleftrightarrow>
     typeof args = lit ''object'' \<and> args \<noteq> JsNull \<and>
     hasProperty (lit ''code'') args \<and>
     isGoCode (getProperty (lit ''code'') args) \<and>
     (\<not> hasProperty (lit ''withVet'') args \<or>
      typeof (getProperty (lit ''withVet'') args) = lit ''boolean'')"

definition isShareGoCodeArgs :: "Unknown \<Rightarrow> bool" where
  "isShareGoCodeArgs args \<longleftrightarrow>
     typeof args = lit ''object'' \<and> args \<noteq> JsNull \<and>
     hasProperty (lit ''code'') args \<and>
     isGoCode (getProperty (lit ''code'') args)"

definition isRunAndShareGoCodeArgs :: "Unknown \<Rightarrow> bool" where
  "isRunAndShareGoCodeArgs args \<longleftrightarrow>
     typeof args = lit ''object'' \<and> args \<noteq> JsNull \<and>
     hasProperty (lit ''code'') args \<and>
     isGoCode (getProperty (lit ''code'') args) \<and>
     (\<not> hasProperty (lit ''withVet'') args \<or>
      typeof (getProperty (lit ''withVet'') args) = lit ''boolean'')"

definition validateGoCode :: "jsstring \<Rightarrow> (jsstring, GoPlaygroundError) Result" where
  "validateGoCode c =
     (if \<not> isGoCode (JsString c)
      then ResultFailure
             (createGoPlaygroundError (lit ''Invalid Go code: code must be a non-empty string'')
                VALIDATION_ERROR None)
      else ResultSuccess c)"

record ProcessedOutput =
  p_output :: jsstring
  hasErrors :: bool

text \<open>
  \<open>processEvents\<close>. The elements are events of the declared type, so the guards
  \<open>event && typeof event === 'object' && 'Kind' in event\<close> hold for each of them and
  \<open>event?.Message ?? ''\<close> is the message.
\<close>

definition processEvents :: "GoPlaygroundEvent list \<Rightarrow> ProcessedOutput" where
  "processEvents events =
     (if length events = 0 then \<lparr>p_output = [], hasErrors = False\<rparr>
      else
        let stdoutEvents = filter (\<lambda>event. Kind event = stdout) events;
            stderrEvents = filter (\<lambda>event. Kind event = stderr) events;
            out = join [] (filter (\<lambda>m. m \<noteq> []) (map Message stdoutEvents))
        in \<lparr>p_output = out, hasErrors = length stderrEvents > 0\<rparr>)"

section \<open>go-playground-client.ts: classifier, remote client, compositor\<close>

definition createDefaultConfig :: GoPlaygroundConfig where
  "createDefaultConfig =
     \<lparr>baseUrl = lit ''https://play.golang.org'',
      frontendUrl = lit ''https://go.dev/play'',
      timeout = 30000\<rparr>"

text \<open>
  The object spread \<open>{ ...createDefaultConfig(), ...config }\<close>.
\<close>

definition spreadConfig :: "GoPlaygroundConfig \<Rightarrow> PartialConfig \<Rightarrow> GoPlaygroundConfig" where
  "spreadConfig d c =
     \<lparr>baseUrl = (case baseUrlOpt c of Some u \<Rightarrow> u | None \<Rightarrow> baseUrl d),
      frontendUrl = (case frontendUrlOpt c of Some u \<Rightarrow> u | None \<Rightarrow> frontendUrl d),
      timeout = (case timeoutOpt c of Some t \<Rightarrow> t | None \<Rightarrow> timeout d)\<rparr>"

text \<open>
  The HTTP client \<open>axios.create\<close> returns is fixed by its base URL and timeout; the
  \<open>User-Agent\<close> header is a constant.
\<close>

record AxiosInstance =
  baseURL :: jsstring
  timeoutMs :: int

definition createHttpClient :: "GoPlaygroundConfig \<Rightarrow> AxiosInstance" where
  "createHttpClient config = \<lparr>baseURL = baseUrl config, timeoutMs = timeout config\<rparr>"

text \<open>
  What a \<open>catch\<close> clause can receive, by the cases \<open>handleApiError\<close> and
  \<open>createErrorResponse\<close> tell apart: an Axios error with \<open>error.response?.status\<close> and
  \<open>error.message\<close>; an object named \<open>GoPlaygroundError\<close>; another \<open>Error\<close> with its message;
  any other value, given by what \<open>String(error)\<close> makes of it.
\<close>

datatype Thrown =
    AxiosError "int option" jsstring
  | PlaygroundError GoPlaygroundError
  | OtherError jsstring
  | OtherValue jsstring

definition handleApiError :: "Thrown \<Rightarrow> MCPGoPlaygroundResult" where
  "handleApiError err =
     (case err of
        AxiosError status msg \<Rightarrow>
          Failure (lit ''HTTP Error: '' @
                   (case status of Some n \<Rightarrow> numberToString n | None \<Rightarrow> lit ''unknown'') @
                   lit '' - '' @ msg) None None
      | PlaygroundError e \<Rightarrow>
          Failure (lit ''GoPlayground Error ['' @ errorCodeText (code e) @ lit '']: '' @ message e)
            None None
      | OtherError msg \<Rightarrow> Failure (lit ''Unexpected error: '' @ msg) None None
      | OtherValue str \<Rightarrow> Failure (lit ''Unexpected error: '' @ str) None None)"

text \<open>
  \<open>result.Events ?? []\<close>: the array, or the empty array when the field is missing or
  \<open>null\<close>.
\<close>

definition eventsOrEmpty :: "EventsField \<Rightarrow> GoPlaygroundEvent list" where
  "eventsOrEmpty f = (case f of EventsArray es \<Rightarrow> es | _ \<Rightarrow> [])"

text \<open>
  \<open>processRunResponse\<close>. Past the first guard the value is a non-null object, which here
  is an object of the declared shape; the last branch of the case is never taken.
\<close>

definition processRunResponse :: "ResponseData \<Rightarrow> MCPGoPlaygroundResult" where
  "processRunResponse d =
     (if falsy d \<or> typeof d \<noteq> lit ''object''
      then Failure (lit ''Invalid response from Go Playground API'') None None
      else
        case d of
          JsObject result \<Rightarrow>
            if Errors result \<noteq> [] \<and> trim (Errors result) \<noteq> []
            then Failure (Errors result) (Some (Status result)) None
            else
              let stderrEvents =
                    (case Events result of
                       EventsArray es \<Rightarrow> filter (\<lambda>event. Kind event = stderr) es
                     | _ \<Rightarrow> [])
              in if length stderrEvents > 0
                 then Failure (join [] (map Message stderrEvents)) (Some (Status result)) None
                 else
                   let processedOutput = processEvents (eventsOrEmpty (Events result))
                   in Success (p_output processedOutput) (Status result) None
        | _ \<Rightarrow> Failure (lit ''Invalid response from Go Playground API'') None None)"

text \<open>
  The remote service: what each of the two endpoints answers to a request sent through a
  given client, a response or a rejection. Every function that may call it returns, beside
  its value, the calls it made, in order. Logging to the console is left out.

  The compile endpoint's answer is given as \<open>response.data\<close>. The share endpoint's answer
  is given as the text of its body together with what \<open>JSON.parse\<close> makes of that text
  (nothing when it throws), because the client is created without a \<open>responseType\<close> and
  without a \<open>transformResponse\<close>: the HTTP library then hands over, as \<open>response.data\<close>, the
  parsed value of a non-empty body that parses as JSON, and the body text otherwise.
\<close>

datatype 'a Outcome = Resolved 'a | Rejected Thrown

record ShareAnswer =
  bodyText :: jsstring
  jsonValue :: "Unknown option"

definition responseData :: "ShareAnswer \<Rightarrow> Unknown" where
  "responseData a =
     (if bodyText a \<noteq> []
      then (case jsonValue a of Some v \<Rightarrow> v | None \<Rightarrow> JsString (bodyText a))
      else JsString (bodyText a))"

record Remote =
  postCompile :: "AxiosInstance \<Rightarrow> GoPlaygroundRunRequest \<Rightarrow> ResponseData Outcome"
  postShare :: "AxiosInstance \<Rightarrow> jsstring \<Rightarrow> ShareAnswer Outcome"

datatype RemoteCall =
    CompileCall AxiosInstance GoPlaygroundRunRequest
  | ShareCall AxiosInstance jsstring

definition runGoCode ::
  "PartialConfig \<Rightarrow> Remote \<Rightarrow> jsstring \<Rightarrow> bool \<Rightarrow> MCPGoPlaygroundResult \<times> RemoteCall list" where
  "runGoCode config net c vet =
     (case validateGoCode c of
        ResultFailure e \<Rightarrow> (Failure (message e) None None, [])
      | ResultSuccess validated \<Rightarrow>
          let finalConfig = spreadConfig createDefaultConfig config;
              client = createHttpClient finalConfig;
              request = \<lparr>version = 2, body = validated, withVet = vet\<rparr>
          in (case postCompile net client request of
                Resolved response \<Rightarrow> processRunResponse response
              | Rejected err \<Rightarrow> handleApiError err,
              [CompileCall client request]))"

definition shareGoCode ::
  "PartialConfig \<Rightarrow> Remote \<Rightarrow> jsstring \<Rightarrow> jsstring option \<times> RemoteCall list" where
  "shareGoCode config net c =
     (case validateGoCode c of
        ResultFailure e \<Rightarrow> (None, [])
      | ResultSuccess validated \<Rightarrow>
          let finalConfig = spreadConfig createDefaultConfig config;
              client = createHttpClient finalConfig
          in (case postShare net client validated of
                Resolved response \<Rightarrow>
                  let shareId = responseData response
                  in Some (frontendUrl finalConfig @ lit ''/p/'' @ toStringJs shareId)
              | Rejected err \<Rightarrow> None,
              [ShareCall client validated]))"

definition runAndShareGoCode ::
  "PartialConfig \<Rightarrow> Remote \<Rightarrow> jsstring \<Rightarrow> bool \<Rightarrow> MCPGoPlaygroundResult \<times> RemoteCall list" where
  "runAndShareGoCode config net c vet =
     (case validateGoCode c of
        ResultFailure e \<Rightarrow> (Failure (message e) None None, [])
      | ResultSuccess validatedCode \<Rightarrow>
          let (runResult, runCalls) = runGoCode config net validatedCode vet;
              (url, shareCalls) = shareGoCode config net validatedCode
          in (if success runResult
              then Success (outputText runResult) (exitCode runResult) url
              else Failure (errors runResult) (exitCodeOpt runResult) url,
              runCalls @ shareCalls))"

record GoPlaygroundClient =
  runCode :: "Remote \<Rightarrow> jsstring \<Rightarrow> bool \<Rightarrow> MCPGoPlaygroundResult \<times> RemoteCall list"
  shareCode :: "Remote \<Rightarrow> jsstring \<Rightarrow> jsstring option \<times> RemoteCall list"
  runAndShare :: "Remote \<Rightarrow> jsstring \<Rightarrow> bool \<Rightarrow> MCPGoPlaygroundResult \<times> RemoteCall list"

definition createGoPlaygroundClient :: "PartialConfig \<Rightarrow> GoPlaygroundClient" where
  "createGoPlaygroundClient config =
     \<lparr>runCode = runGoCode config,
      shareCode = shareGoCode config,
      runAndShare = runAndShareGoCode config\<rparr>"

section \<open>mcp-server.ts: presenter and tool router\<close>

datatype ContentItem = TextContent jsstring

record MCPToolResponse =
  content :: "ContentItem list"

text \<open>
  The three emoji of the report templates, as code units: U+2705, U+274C, and U+26A0
  followed by the variation selector U+FE0F.
\<close>

definition checkMark :: jsstring where
  "checkMark = [0x2705]"

definition crossMark :: jsstring where
  "crossMark = [0x274C]"

definition warningSign :: jsstring where
  "warningSign = [0x26A0, 0xFE0F]"

definition formatSuccessResponse :: "MCPGoPlaygroundResult \<Rightarrow> jsstring" where
  "formatSuccessResponse result =
     (let parts =
            [checkMark @ lit '' Code executed successfully!\<newline>'',
             lit ''**Output:**'',
             lit ''```'',
             (if outputText result \<noteq> [] then outputText result else lit ''(no output)''),
             lit ''```\<newline>'',
             lit ''**Exit Code:** '' @ numberToString (exitCode result)]
      in join (lit ''\<newline>'') parts)"

definition formatFailureResponse :: "MCPGoPlaygroundResult \<Rightarrow> jsstring" where
  "formatFailureResponse result =
     (let parts =
            [crossMark @ lit '' Code execution failed!\<newline>'',
             lit ''**Errors:**'',
             lit ''```'',
             errors result,
             lit ''```\<newline>''];
          parts' =
            (case exitCodeOpt result of
               Some c \<Rightarrow> parts @ [lit ''**Exit Code:** '' @ numberToString c]
             | None \<Rightarrow> parts)
      in join (lit ''\<newline>'') parts')"

definition formatRunResponse :: "MCPGoPlaygroundResult \<Rightarrow> jsstring" where
  "formatRunResponse result =
     (if success result then formatSuccessResponse result else formatFailureResponse result)"

text \<open>
  \<open>if (result.shareUrl)\<close> tests truthiness: the URL is there and is not the empty string.
\<close>

definition formatRunAndShareResponse :: "MCPGoPlaygroundResult \<Rightarrow> jsstring" where
  "formatRunAndShareResponse result =
     (let runResponse = formatRunResponse result;
          parts =
            (case shareUrl result of
               Some url \<Rightarrow>
                 if url \<noteq> [] then [runResponse, lit ''\<newline>**Share URL:** '' @ url]
                 else [runResponse,
                       lit ''\<newline>'' @ warningSign @ lit '' Failed to generate share URL'']
             | None \<Rightarrow>
                 [runResponse,
                  lit ''\<newline>'' @ warningSign @ lit '' Failed to generate share URL''])
      in join [] parts)"

definition createSuccessResponse :: "jsstring \<Rightarrow> MCPToolResponse" where
  "createSuccessResponse t = \<lparr>content = [TextContent t]\<rparr>"

text \<open>
  \<open>createErrorResponse\<close>. An Axios error is an \<open>Error\<close> that is not named
  \<open>GoPlaygroundError\<close>, so it takes the second branch.
\<close>

definition createErrorResponse :: "Thrown \<Rightarrow> MCPToolResponse" where
  "createErrorResponse err =
     (let errorMessage =
            (case err of
               PlaygroundError goError \<Rightarrow>
                 lit ''Error ['' @ errorCodeText (code goError) @ lit '']: '' @ message goError
             | AxiosError status msg \<Rightarrow> lit ''Error: '' @ msg
             | OtherError msg \<Rightarrow> lit ''Error: '' @ msg
             | OtherValue str \<Rightarrow> lit ''Unexpected error: '' @ str)
      in \<lparr>content = [TextContent errorMessage]\<rparr>)"

text \<open>
  The handlers run behind the type guards of the router, which narrow the argument bag to
  \<open>{code: GoCode, withVet?: boolean}\<close>. Reading a property at its declared type:
\<close>

definition codeOf :: "Unknown \<Rightarrow> jsstring" where
  "codeOf args = (case getProperty (lit ''code'') args of JsString s \<Rightarrow> s | _ \<Rightarrow> [])"

text \<open>
  \<open>const { code, withVet = true } = args\<close>: the default stands in when the property is
  \<open>undefined\<close>.
\<close>

definition withVetOf :: "Unknown \<Rightarrow> bool" where
  "withVetOf args = (case getProperty (lit ''withVet'') args of JsBoolean b \<Rightarrow> b | _ \<Rightarrow> True)"

text \<open>
  The client functions return a result for every input and the formatters are total, so
  the \<open>catch\<close> clauses of the handlers have nothing to catch.
\<close>

definition createRunGoCodeHandler ::
  "GoPlaygroundClient \<Rightarrow> Remote \<Rightarrow> Unknown \<Rightarrow> MCPToolResponse \<times> RemoteCall list" where
  "createRunGoCodeHandler client net args =
     (let (result, calls) = runCode client net (codeOf args) (withVetOf args);
          responseText = formatRunResponse result
      in (createSuccessResponse responseText, calls))"

definition createShareGoCodeHandler ::
  "GoPlaygroundClient \<Rightarrow> Remote \<Rightarrow> Unknown \<Rightarrow> MCPToolResponse \<times> RemoteCall list" where
  "createShareGoCodeHandler client net args =
     (let (url, calls) = shareCode client net (codeOf args);
          responseText =
            (case url of
               Some u \<Rightarrow>
                 if u \<noteq> []
                 then checkMark @ lit '' Code shared successfully!\<newline>\<newline>**Share URL:** '' @ u
                 else crossMark @ lit '' Failed to share code. Please try again.''
             | None \<Rightarrow> crossMark @ lit '' Failed to share code. Please try again.'')
      in (createSuccessResponse responseText, calls))"

definition createRunAndShareGoCodeHandler ::
  "GoPlaygroundClient \<Rightarrow> Remote \<Rightarrow> Unknown \<Rightarrow> MCPToolResponse \<times> RemoteCall list" where
  "createRunAndShareGoCodeHandler client net args =
     (let (result, calls) = runAndShare client net (codeOf args) (withVetOf args);
          responseText = formatRunAndShareResponse result
      in (createSuccessResponse responseText, calls))"

text \<open>
  \<open>createToolRouter\<close>. The switch is over the literal union \<open>ToolName\<close>; its default branch,
  \<open>assertNever\<close>, has no value to run on.
\<close>

definition createToolRouter ::
  "GoPlaygroundClient \<Rightarrow> Remote \<Rightarrow> ToolName \<Rightarrow> Unknown \<Rightarrow> MCPToolResponse \<times> RemoteCall list" where
  "createToolRouter client net toolName args =
     (case toolName of
        RUN_GO_CODE \<Rightarrow>
          if \<not> isRunGoCodeArgs args
          then (createErrorResponse
                  (PlaygroundError
                     (createGoPlaygroundError (lit ''Invalid arguments for run_go_code'')
                        VALIDATION_ERROR None)), [])
          else createRunGoCodeHandler client net args
      | SHARE_GO_CODE \<Rightarrow>
          if \<not> isShareGoCodeArgs args
          then (createErrorResponse
                  (PlaygroundError
                     (createGoPlaygroundError (lit ''Invalid arguments for share_go_code'')
                        VALIDATION_ERROR None)), [])
          else createShareGoCodeHandler client net args
      | RUN_AND_SHARE_GO_CODE \<Rightarrow>
          if \<not> isRunAndShareGoCodeArgs args
          then (createErrorResponse
                  (PlaygroundError
                     (createGoPlaygroundError (lit ''Invalid arguments for run_and_share_go_code'')
                        VALIDATION_ERROR None)), [])
          else createRunAndShareGoCodeHandler client net args)"

text \<open>
  The narrowing \<open>value is ToolName\<close> that \<open>isValidToolName\<close> licenses: the tool whose literal
  the name is.
\<close>

definition asToolName :: "jsstring \<Rightarrow> ToolName option" where
  "asToolName name =
     (if isValidToolName (JsString name)
      then find (\<lambda>t. TOOL_NAMES t = name) toolNameValues
      else None)"

text \<open>
  The \<open>CallToolRequest\<close> handler that \<open>setupToolHandlers\<close> installs, for the server
  \<open>createMCPServer\<close> builds: its client is \<open>createGoPlaygroundClient()\<close>, with no
  configuration override. The request schema makes \<open>name\<close> a string, so \<open>String(name)\<close>
  is the name. The router returns a response for every input, so the \<open>catch\<close> clause
  around it has nothing to catch.
\<close>

definition emptyConfig :: PartialConfig where
  "emptyConfig = \<lparr>baseUrlOpt = None, frontendUrlOpt = None, timeoutOpt = None\<rparr>"

definition callTool :: "Remote \<Rightarrow> jsstring \<Rightarrow> Unknown \<Rightarrow> MCPToolResponse \<times> RemoteCall list" where
  "callTool net name args =
     (case asToolName name of
        None \<Rightarrow>
          (createErrorResponse
             (PlaygroundError
                (createGoPlaygroundError (lit ''Unknown tool: '' @ name) VALIDATION_ERROR None)),
           [])
      | Some toolName \<Rightarrow>
          createToolRouter (createGoPlaygroundClient emptyConfig) net toolName args)"

section \<open>Concrete inputs\<close>

definition exampleCode :: jsstring where
  "exampleCode = lit ''package main''"

definition blankErrorsResponse :: GoPlaygroundResponse where
  "blankErrorsResponse =
     \<lparr>Errors = lit '' '',
      Events = EventsArray [\<lparr>Message = lit ''hi'', Kind = stdout, Delay = 0\<rparr>],
      Status = 0, IsTest = False, TestsFailed = 0, VetOK = None\<rparr>"

definition syntaxErrorResponse :: GoPlaygroundResponse where
  "syntaxErrorResponse =
     \<lparr>Errors = lit ''syntax error: unexpected }'',
      Events = EventsArray [\<lparr>Message = lit ''ignored'', Kind = stderr, Delay = 0\<rparr>],
      Status = 2, IsTest = False, TestsFailed = 0, VetOK = None\<rparr>"

definition panicResponse :: GoPlaygroundResponse where
  "panicResponse =
     \<lparr>Errors = [],
      Events = EventsArray
        [\<lparr>Message = lit ''start'', Kind = stdout, Delay = 0\<rparr>,
         \<lparr>Message = lit ''panic: '', Kind = stderr, Delay = 0\<rparr>,
         \<lparr>Message = lit ''more'', Kind = stdout, Delay = 0\<rparr>,
         \<lparr>Message = lit ''boom'', Kind = stderr, Delay = 0\<rparr>],
      Status = 2, IsTest = False, TestsFailed = 0, VetOK = None\<rparr>"

definition helloResponse :: GoPlaygroundResponse where
  "helloResponse =
     \<lparr>Errors = [],
      Events = EventsArray
        [\<lparr>Message = lit ''hi '', Kind = stdout, Delay = 0\<rparr>,
         \<lparr>Message = [], Kind = stdout, Delay = 0\<rparr>,
         \<lparr>Message = lit ''status 0'', Kind = exit, Delay = 0\<rparr>,
         \<lparr>Message = lit ''there'', Kind = stdout, Delay = 0\<rparr>],
      Status = 0, IsTest = False, TestsFailed = 0, VetOK = Some True\<rparr>"

definition noEventsResponse :: GoPlaygroundResponse where
  "noEventsResponse =
     \<lparr>Errors = [], Events = EventsNull, Status = 0, IsTest = False, TestsFailed = 0,
      VetOK = None\<rparr>"

text \<open>
  Remote services: one that answers both endpoints, one whose share endpoint is down, one
  whose compile endpoint answers with HTTP 500, one whose endpoints time out, one whose
  compile endpoint reports a compile error, and one whose share endpoint answers with a
  given body. The identifier \<open>abc123\<close> is not JSON text; the identifiers \<open>1e3\<close> and
  \<open>123456789e1\<close> are JSON numbers, \<open>1000\<close> and \<open>1234567890\<close>.
\<close>

definition okRemote :: Remote where
  "okRemote =
     \<lparr>postCompile = (\<lambda>client request. Resolved (JsObject helloResponse)),
      postShare = (\<lambda>client c. Resolved \<lparr>bodyText = lit ''abc123'', jsonValue = None\<rparr>)\<rparr>"

definition shareDownRemote :: Remote where
  "shareDownRemote =
     \<lparr>postCompile = (\<lambda>client request. Resolved (JsObject helloResponse)),
      postShare = (\<lambda>client c. Rejected (AxiosError None (lit ''Network Error'')))\<rparr>"

definition http500Remote :: Remote where
  "http500Remote =
     \<lparr>postCompile = (\<lambda>client request.
        Rejected (AxiosError (Some 500) (lit ''Request failed with status code 500''))),
      postShare = (\<lambda>client c. Resolved \<lparr>bodyText = lit ''abc123'', jsonValue = None\<rparr>)\<rparr>"

definition timeoutRemote :: Remote where
  "timeoutRemote =
     \<lparr>postCompile = (\<lambda>client request.
        Rejected (AxiosError None (lit ''timeout of 30000ms exceeded''))),
      postShare = (\<lambda>client c. Rejected (AxiosError None (lit ''timeout of 30000ms exceeded'')))\<rparr>"

definition syntaxErrorRemote :: Remote where
  "syntaxErrorRemote =
     \<lparr>postCompile = (\<lambda>client request. Resolved (JsObject syntaxErrorResponse)),
      postShare = (\<lambda>client c. Resolved \<lparr>bodyText = lit ''abc123'', jsonValue = None\<rparr>)\<rparr>"

definition answeringRemote :: "ShareAnswer \<Rightarrow> Remote" where
  "answeringRemote a =
     \<lparr>postCompile = (\<lambda>client request. Resolved (JsObject helloResponse)),
      postShare = (\<lambda>client c. Resolved a)\<rparr>"

definition shortNumericId :: ShareAnswer where
  "shortNumericId = \<lparr>bodyText = lit ''1e3'', jsonValue = Some (JsNumber 1000)\<rparr>"

definition longNumericId :: ShareAnswer where
  "longNumericId = \<lparr>bodyText = lit ''123456789e1'', jsonValue = Some (JsNumber 1234567890)\<rparr>"

definition blankCodeArgs :: Unknown where
  "blankCodeArgs = JsObject (Bag [(lit ''code'', JsString (lit ''  '')), (lit ''withVet'', JsBoolean True)])"

definition exampleArgs :: Unknown where
  "exampleArgs = JsObject (Bag [(lit ''code'', JsString exampleCode)])"

section \<open>Auxiliary facts\<close>

lemma join_empty_sep: "join [] xs = concat xs"
  by (induction xs rule: induct_list012) simp_all

lemma trim_Nil: "trim [] = []"
  by (simp add: trim_def)

lemma typeof_object_iff:
  "\<not> (falsy d \<or> typeof d \<noteq> lit ''object'') \<longleftrightarrow> (\<exists>r. d = JsObject r)"
  by (cases d) (simp_all add: lit_def)

lemma not_object_guard:
  "(\<forall>r. d \<noteq> JsObject r) \<Longrightarrow> falsy d \<or> typeof d \<noteq> lit ''object''"
  by (cases d) (simp_all add: lit_def)

text \<open>
  The classifier on an object of the declared shape, with the array methods read as list
  functions.
\<close>

lemma processRunResponse_object:
  "processRunResponse (JsObject r) =
     (if trim (Errors r) \<noteq> [] then Failure (Errors r) (Some (Status r)) None
      else if filter (\<lambda>e. Kind e = stderr) (eventsOrEmpty (Events r)) \<noteq> []
      then Failure (concat (map Message (filter (\<lambda>e. Kind e = stderr) (eventsOrEmpty (Events r)))))
             (Some (Status r)) None
      else Success (concat (filter (\<lambda>m. m \<noteq> [])
                      (map Message (filter (\<lambda>e. Kind e = stdout) (eventsOrEmpty (Events r))))))
             (Status r) None)"
proof -
  have obj: "\<not> (falsy (JsObject r) \<or> typeof (JsObject r) \<noteq> lit ''object'')"
    by simp
  have err: "(Errors r \<noteq> [] \<and> trim (Errors r) \<noteq> []) = (trim (Errors r) \<noteq> [])"
    using trim_Nil by auto
  have ev: "(case Events r of EventsArray es \<Rightarrow> filter (\<lambda>event. Kind event = stderr) es | _ \<Rightarrow> [])
            = filter (\<lambda>e. Kind e = stderr) (eventsOrEmpty (Events r))"
    by (cases "Events r") (simp_all add: eventsOrEmpty_def)
  have pe: "p_output (processEvents es) =
            concat (filter (\<lambda>m. m \<noteq> []) (map Message (filter (\<lambda>e. Kind e = stdout) es)))" for es
    by (simp add: processEvents_def Let_def join_empty_sep)
  show ?thesis
    unfolding processRunResponse_def
    by (simp only: obj err ev pe if_False JsValue.case Let_def join_empty_sep length_greater_0_conv)
qed

text \<open>
  The client functions, by whether the code passes validation.
\<close>

lemma processRunResponse_not_object:
  assumes "\<forall>r. d \<noteq> JsObject r"
  shows "processRunResponse d = Failure (lit ''Invalid response from Go Playground API'') None None"
proof -
  have "falsy d \<or> typeof d \<noteq> lit ''object''"
    using assms by (rule not_object_guard)
  then have "(falsy d \<or> typeof d \<noteq> lit ''object'') = True"
    by (rule eqTrueI)
  then show ?thesis
    unfolding processRunResponse_def by (simp only: if_True)
qed

lemma processRunResponse_shareUrl: "shareUrl (processRunResponse d) = None"
proof (cases "\<exists>r. d = JsObject r")
  case True
  then obtain r where "d = JsObject r" ..
  then show ?thesis
    by (simp add: processRunResponse_object)
next
  case False
  then have "\<forall>r. d \<noteq> JsObject r" by simp
  then have "processRunResponse d =
      Failure (lit ''Invalid response from Go Playground API'') None None"
    by (rule processRunResponse_not_object)
  then show ?thesis
    by (simp only: MCPGoPlaygroundResult.sel)
qed

lemma handleApiError_shape:
  "shareUrl (handleApiError err) = None \<and> exitCodeOpt (handleApiError err) = None \<and>
   \<not> success (handleApiError err)"
  by (cases err) (simp_all add: handleApiError_def)

lemma validateGoCode_valid: "isGoCode (JsString c) \<Longrightarrow> validateGoCode c = ResultSuccess c"
  by (simp add: validateGoCode_def)

lemma validateGoCode_invalid:
  "\<not> isGoCode (JsString c) \<Longrightarrow>
   validateGoCode c =
     ResultFailure (createGoPlaygroundError
       (lit ''Invalid Go code: code must be a non-empty string'') VALIDATION_ERROR None)"
  by (simp add: validateGoCode_def)

lemma runGoCode_valid:
  assumes "isGoCode (JsString c)"
  shows "runGoCode config net c vet =
     (case postCompile net (createHttpClient (spreadConfig createDefaultConfig config))
             \<lparr>version = 2, body = c, withVet = vet\<rparr> of
        Resolved response \<Rightarrow> processRunResponse response
      | Rejected err \<Rightarrow> handleApiError err,
      [CompileCall (createHttpClient (spreadConfig createDefaultConfig config))
         \<lparr>version = 2, body = c, withVet = vet\<rparr>])"
  unfolding runGoCode_def validateGoCode_valid [OF assms]
  by (simp only: Result.case Let_def)

lemma runGoCode_invalid:
  assumes "\<not> isGoCode (JsString c)"
  shows "runGoCode config net c vet =
     (Failure (lit ''Invalid Go code: code must be a non-empty string'') None None, [])"
  unfolding runGoCode_def validateGoCode_invalid [OF assms]
  by (simp add: createGoPlaygroundError_def)

lemma runGoCode_shareUrl: "shareUrl (fst (runGoCode config net c vet)) = None"
proof (cases "isGoCode (JsString c)")
  case True
  show ?thesis
    unfolding runGoCode_valid [OF True]
    by (simp add: processRunResponse_shareUrl handleApiError_shape split: Outcome.split)
next
  case False
  show ?thesis
    unfolding runGoCode_invalid [OF False] by simp
qed

lemma shareGoCode_valid:
  assumes "isGoCode (JsString c)"
  shows "shareGoCode config net c =
     (case postShare net (createHttpClient (spreadConfig createDefaultConfig config)) c of
        Resolved response \<Rightarrow>
          Some (frontendUrl (spreadConfig createDefaultConfig config) @ lit ''/p/'' @
                toStringJs (responseData response))
      | Rejected err \<Rightarrow> None,
      [ShareCall (createHttpClient (spreadConfig createDefaultConfig config)) c])"
  unfolding shareGoCode_def validateGoCode_valid [OF assms]
  by (simp only: Result.case Let_def)

lemma shareGoCode_resolved:
  assumes "isGoCode (JsString c)"
    and "postShare net (createHttpClient (spreadConfig createDefaultConfig config)) c = Resolved a"
  shows "fst (shareGoCode config net c) =
     Some ((case frontendUrlOpt config of Some f \<Rightarrow> f | None \<Rightarrow> lit ''https://go.dev/play'')
           @ lit ''/p/'' @ toStringJs (responseData a))"
proof -
  have fe: "frontendUrl (spreadConfig createDefaultConfig config) =
      (case frontendUrlOpt config of Some f \<Rightarrow> f | None \<Rightarrow> lit ''https://go.dev/play'')"
    by (cases "frontendUrlOpt config") (simp_all add: spreadConfig_def createDefaultConfig_def)
  show ?thesis
    unfolding shareGoCode_valid [OF assms(1)] assms(2) fe by simp
qed

lemma responseData_not_json: "jsonValue a = None \<Longrightarrow> toStringJs (responseData a) = bodyText a"
  by (simp add: responseData_def)

lemma responseData_json_string:
  "bodyText a \<noteq> [] \<Longrightarrow> jsonValue a = Some (JsString i) \<Longrightarrow> toStringJs (responseData a) = i"
  by (simp add: responseData_def)

lemma shareGoCode_invalid:
  assumes "\<not> isGoCode (JsString c)"
  shows "shareGoCode config net c = (None, [])"
  unfolding shareGoCode_def validateGoCode_invalid [OF assms]
  by simp

lemma runAndShareGoCode_valid:
  assumes "isGoCode (JsString c)"
  shows "runAndShareGoCode config net c vet =
     (if success (fst (runGoCode config net c vet))
      then Success (outputText (fst (runGoCode config net c vet)))
             (exitCode (fst (runGoCode config net c vet))) (fst (shareGoCode config net c))
      else Failure (errors (fst (runGoCode config net c vet)))
             (exitCodeOpt (fst (runGoCode config net c vet))) (fst (shareGoCode config net c)),
      snd (runGoCode config net c vet) @ snd (shareGoCode config net c))"
  unfolding runAndShareGoCode_def validateGoCode_valid [OF assms]
  by (simp only: Result.case Let_def case_prod_beta)

lemma runAndShareGoCode_invalid:
  assumes "\<not> isGoCode (JsString c)"
  shows "runAndShareGoCode config net c vet =
     (Failure (lit ''Invalid Go code: code must be a non-empty string'') None None, [])"
  unfolding runAndShareGoCode_def validateGoCode_invalid [OF assms]
  by (simp add: createGoPlaygroundError_def)

lemma attach_None:
  "shareUrl r = None \<Longrightarrow>
   (if success r then Success (outputText r) (exitCode r) None
    else Failure (errors r) (exitCodeOpt r) None) = r"
  by (cases r) simp_all

lemma attach_case:
  "(if success r then Success (outputText r) (exitCode r) u
    else Failure (errors r) (exitCodeOpt r) u) =
   (case r of Success out ec old \<Rightarrow> Success out ec u | Failure errs ec old \<Rightarrow> Failure errs ec u)"
  by (cases r) simp_all

lemma runAndShareGoCode_attaches:
  assumes "isGoCode (JsString c)"
  shows "fst (runAndShareGoCode config net c vet) =
     (case fst (runGoCode config net c vet) of
        Success out ec old \<Rightarrow> Success out ec (fst (shareGoCode config net c))
      | Failure errs ec old \<Rightarrow> Failure errs ec (fst (shareGoCode config net c)))"
  unfolding runAndShareGoCode_valid [OF assms] fst_conv by (rule attach_case)

lemma exampleCode_valid: "isGoCode (JsString exampleCode)"
  by (simp add: isGoCode_def exampleCode_def trim_def isWhiteSpace_def lit_def)

lemma hello_classified:
  "processRunResponse (JsObject helloResponse) = Success (lit ''hi there'') 0 None"
  by (simp add: processRunResponse_object helloResponse_def eventsOrEmpty_def trim_Nil lit_def)

lemma numberToString_500: "numberToString 500 = lit ''500''"
  by (simp add: numberToString_def natToString.simps digit_def lit_def)

text \<open>
  The router: name narrowing, and the answer to arguments whose code fails the guard.
\<close>

lemma asToolName_TOOL_NAMES: "asToolName (TOOL_NAMES t) = Some t"
  by (cases t) (simp_all add: asToolName_def isValidToolName_def toolNameValues_def lit_def)

lemma asToolName_unknown:
  assumes "name \<notin> {lit ''run_go_code'', lit ''share_go_code'', lit ''run_and_share_go_code''}"
  shows "asToolName name = None"
proof -
  have "\<not> isValidToolName (JsString name)"
    using assms by (simp add: isValidToolName_def toolNameValues_def)
  then show ?thesis
    by (simp add: asToolName_def)
qed

lemma invalid_code_args:
  assumes "\<not> isGoCode (getProperty (lit ''code'') args)"
  shows "\<not> isRunGoCodeArgs args" and "\<not> isShareGoCodeArgs args"
    and "\<not> isRunAndShareGoCodeArgs args"
  using assms
  by (simp_all add: isRunGoCodeArgs_def isShareGoCodeArgs_def isRunAndShareGoCodeArgs_def)

lemma validation_error_text:
  "createErrorResponse (PlaygroundError (createGoPlaygroundError msg VALIDATION_ERROR None)) =
     \<lparr>content = [TextContent (lit ''Error [VALIDATION_ERROR]: '' @ msg)]\<rparr>"
  by (simp add: createErrorResponse_def createGoPlaygroundError_def lit_def)

lemma invalid_arguments_text:
  "lit ''Invalid arguments for run_go_code'' = lit ''Invalid arguments for '' @ TOOL_NAMES RUN_GO_CODE"
  "lit ''Invalid arguments for share_go_code'' = lit ''Invalid arguments for '' @ TOOL_NAMES SHARE_GO_CODE"
  "lit ''Invalid arguments for run_and_share_go_code'' =
     lit ''Invalid arguments for '' @ TOOL_NAMES RUN_AND_SHARE_GO_CODE"
  by (simp_all add: lit_def)

lemma lit_append_assoc: "lit a @ lit b @ x = lit (a @ b) @ x"
  by (simp add: lit_def)

lemma router_invalid_args:
  assumes "\<not> isGoCode (getProperty (lit ''code'') args)"
  shows "createToolRouter client net t args =
     (\<lparr>content = [TextContent
         (lit ''Error [VALIDATION_ERROR]: Invalid arguments for '' @ TOOL_NAMES t)]\<rparr>, [])"
proof (cases t)
  case RUN_GO_CODE
  show ?thesis
    unfolding RUN_GO_CODE createToolRouter_def
    by (simp only: ToolName.case invalid_code_args [OF assms] if_True not_False_eq_True
        validation_error_text invalid_arguments_text lit_append_assoc)
      (simp add: lit_def)
next
  case SHARE_GO_CODE
  show ?thesis
    unfolding SHARE_GO_CODE createToolRouter_def
    by (simp only: ToolName.case invalid_code_args [OF assms] if_True not_False_eq_True
        validation_error_text invalid_arguments_text lit_append_assoc)
      (simp add: lit_def)
next
  case RUN_AND_SHARE_GO_CODE
  show ?thesis
    unfolding RUN_AND_SHARE_GO_CODE createToolRouter_def
    by (simp only: ToolName.case invalid_code_args [OF assms] if_True not_False_eq_True
        validation_error_text invalid_arguments_text lit_append_assoc)
      (simp add: lit_def)
qed

text \<open>
  With valid arguments the router does reach the remote service: one call to each endpoint,
  execute first.
\<close>

lemma callTool_reaches_remote:
  "snd (callTool okRemote (lit ''run_and_share_go_code'') exampleArgs) =
     [CompileCall \<lparr>baseURL = lit ''https://play.golang.org'', timeoutMs = 30000\<rparr>
        \<lparr>version = 2, body = exampleCode, withVet = True\<rparr>,
      ShareCall \<lparr>baseURL = lit ''https://play.golang.org'', timeoutMs = 30000\<rparr> exampleCode]"
proof -
  have n: "asToolName (lit ''run_and_share_go_code'') = Some RUN_AND_SHARE_GO_CODE"
    using asToolName_TOOL_NAMES [of RUN_AND_SHARE_GO_CODE] by simp
  have g: "getProperty (lit ''code'') exampleArgs = JsString exampleCode"
    by (simp add: exampleArgs_def getProperty_def)
  have w: "\<not> hasProperty (lit ''withVet'') exampleArgs"
    by (simp add: exampleArgs_def hasProperty_def lit_def)
  have w2: "getProperty (lit ''withVet'') exampleArgs = JsUndefined"
    by (simp add: exampleArgs_def getProperty_def lit_def)
  have h: "hasProperty (lit ''code'') exampleArgs"
    by (simp add: exampleArgs_def hasProperty_def)
  have ty: "typeof exampleArgs = lit ''object''" "exampleArgs \<noteq> JsNull"
    by (simp_all add: exampleArgs_def)
  have ok: "isRunAndShareGoCodeArgs exampleArgs"
    unfolding isRunAndShareGoCodeArgs_def g using exampleCode_valid w h ty by simp
  have cl: "createHttpClient (spreadConfig createDefaultConfig emptyConfig) =
      \<lparr>baseURL = lit ''https://play.golang.org'', timeoutMs = 30000\<rparr>"
    by (simp add: createHttpClient_def spreadConfig_def createDefaultConfig_def emptyConfig_def)
  have c: "codeOf exampleArgs = exampleCode" "withVetOf exampleArgs = True"
    by (simp_all add: codeOf_def withVetOf_def g w2)
  show ?thesis
    unfolding callTool_def n option.case createToolRouter_def ToolName.case
    using ok
    by (simp add: createRunAndShareGoCodeHandler_def createGoPlaygroundClient_def c
        runAndShareGoCode_valid [OF exampleCode_valid] runGoCode_valid [OF exampleCode_valid]
        shareGoCode_valid [OF exampleCode_valid] cl case_prod_beta)
qed

lemma runAndShare_ok_example:
  "fst (runAndShareGoCode emptyConfig okRemote exampleCode True) =
     Success (lit ''hi there'') 0 (Some (lit ''https://go.dev/play/p/abc123''))"
proof -
  have r: "fst (runGoCode emptyConfig okRemote exampleCode True) = Success (lit ''hi there'') 0 None"
    unfolding runGoCode_valid [OF exampleCode_valid] by (simp add: okRemote_def hello_classified)
  have s: "fst (shareGoCode emptyConfig okRemote exampleCode) =
      Some (lit ''https://go.dev/play/p/abc123'')"
    unfolding shareGoCode_valid [OF exampleCode_valid]
    by (simp add: okRemote_def spreadConfig_def createDefaultConfig_def emptyConfig_def
        responseData_def lit_def)
  show ?thesis
    unfolding runAndShareGoCode_valid [OF exampleCode_valid] fst_conv r s by simp
qed

lemma syntax_error_classified:
  "processRunResponse (JsObject syntaxErrorResponse) =
     Failure (lit ''syntax error: unexpected }'') (Some 2) None"
proof -
  have "trim (Errors syntaxErrorResponse) \<noteq> []"
    by (simp add: syntaxErrorResponse_def trim_def isWhiteSpace_def lit_def)
  then show ?thesis
    by (simp add: processRunResponse_object syntaxErrorResponse_def)
qed

lemma runAndShare_syntax_error_example:
  "fst (runAndShareGoCode emptyConfig syntaxErrorRemote exampleCode True) =
     Failure (lit ''syntax error: unexpected }'') (Some 2)
       (Some (lit ''https://go.dev/play/p/abc123''))"
proof -
  have r: "fst (runGoCode emptyConfig syntaxErrorRemote exampleCode True) =
      Failure (lit ''syntax error: unexpected }'') (Some 2) None"
    unfolding runGoCode_valid [OF exampleCode_valid]
    by (simp add: syntaxErrorRemote_def syntax_error_classified)
  have s: "fst (shareGoCode emptyConfig syntaxErrorRemote exampleCode) =
      Some (lit ''https://go.dev/play/p/abc123'')"
    unfolding shareGoCode_valid [OF exampleCode_valid]
    by (simp add: syntaxErrorRemote_def spreadConfig_def createDefaultConfig_def emptyConfig_def
        responseData_def lit_def)
  show ?thesis
    unfolding runAndShareGoCode_valid [OF exampleCode_valid] fst_conv r s by simp
qed

lemma runAndShare_timeout_example:
  "fst (runAndShareGoCode emptyConfig timeoutRemote exampleCode True) =
     Failure (lit ''HTTP Error: unknown - timeout of 30000ms exceeded'') None None"
proof -
  have r: "fst (runGoCode emptyConfig timeoutRemote exampleCode True) =
      Failure (lit ''HTTP Error: unknown - timeout of 30000ms exceeded'') None None"
    unfolding runGoCode_valid [OF exampleCode_valid]
    by (simp add: timeoutRemote_def handleApiError_def) (simp add: lit_def)
  have s: "fst (shareGoCode emptyConfig timeoutRemote exampleCode) = None"
    unfolding shareGoCode_valid [OF exampleCode_valid] by (simp add: timeoutRemote_def)
  show ?thesis
    unfolding runAndShareGoCode_valid [OF exampleCode_valid] fst_conv r s by simp
qed

lemma runAndShare_share_down_example:
  "fst (runAndShareGoCode emptyConfig shareDownRemote exampleCode True) =
     Success (lit ''hi there'') 0 None"
proof -
  have r: "fst (runGoCode emptyConfig shareDownRemote exampleCode True) =
      Success (lit ''hi there'') 0 None"
    unfolding runGoCode_valid [OF exampleCode_valid]
    by (simp add: shareDownRemote_def hello_classified)
  have s: "fst (shareGoCode emptyConfig shareDownRemote exampleCode) = None"
    unfolding shareGoCode_valid [OF exampleCode_valid] by (simp add: shareDownRemote_def)
  show ?thesis
    unfolding runAndShareGoCode_valid [OF exampleCode_valid] fst_conv r s by simp
qed

text \<open>
  The presenter: a rendered number ends in a digit, and the two reports written out.
\<close>

lemma digit_not_newline: "d < 10 \<Longrightarrow> digit d \<noteq> 10"
proof -
  assume "d < 10"
  then have "d \<in> {0, 1, 2, 3, 4, 5, 6, 7, 8, 9}"
    by auto
  then show ?thesis
    by (auto simp: digit_def)
qed

lemma natToString_last: "natToString n \<noteq> [] \<and> last (natToString n) \<noteq> 10"
proof (cases "n < 10")
  case True
  then show ?thesis
    by (subst (1 2) natToString.simps) (simp add: digit_not_newline)
next
  case False
  have "n mod 10 < 10" by simp
  then have "digit (n mod 10) \<noteq> 10" by (rule digit_not_newline)
  with False show ?thesis
    by (subst (1 2) natToString.simps) simp
qed

lemma numberToString_last: "numberToString i \<noteq> [] \<and> last (numberToString i) \<noteq> 10"
  using natToString_last by (simp add: numberToString_def)

lemma suffix_last: "suffix s r \<Longrightarrow> s \<noteq> [] \<Longrightarrow> last r = last s"
  by (auto simp: suffix_def)

lemma formatFailureResponse_text:
  "formatFailureResponse (Failure errs ec su) =
     crossMark @ lit '' Code execution failed!\<newline>\<newline>**Errors:**\<newline>```\<newline>'' @ errs @
     lit ''\<newline>```\<newline>'' @
     (case ec of Some n \<Rightarrow> lit ''\<newline>**Exit Code:** '' @ numberToString n | None \<Rightarrow> [])"
  by (cases ec) (simp_all add: formatFailureResponse_def lit_def)

lemma exit_code_line_iff:
  "(\<exists>n. suffix (lit ''\<newline>**Exit Code:** '' @ numberToString n)
          (formatFailureResponse (Failure errs ec su))) \<longleftrightarrow> ec \<noteq> None"
proof (cases ec)
  case None
  have l: "last (formatFailureResponse (Failure errs None su)) = 10"
    unfolding formatFailureResponse_text by (simp add: lit_def)
  have "\<not> suffix (lit ''\<newline>**Exit Code:** '' @ numberToString n)
          (formatFailureResponse (Failure errs None su))" for n
  proof
    assume s: "suffix (lit ''\<newline>**Exit Code:** '' @ numberToString n)
          (formatFailureResponse (Failure errs None su))"
    have ne: "lit ''\<newline>**Exit Code:** '' @ numberToString n \<noteq> []"
      using numberToString_last by simp
    have "last (lit ''\<newline>**Exit Code:** '' @ numberToString n) = last (numberToString n)"
      using numberToString_last by simp
    with suffix_last [OF s ne] l have "last (numberToString n) = 10"
      by simp
    with numberToString_last show False
      by simp
  qed
  with None show ?thesis
    by simp
next
  case (Some m)
  have "suffix (lit ''\<newline>**Exit Code:** '' @ numberToString m)
          (formatFailureResponse (Failure errs (Some m) su))"
    unfolding formatFailureResponse_text suffix_def
    by (simp only: option.case append_assoc [symmetric]) (rule exI, rule refl)
  with Some show ?thesis
    by auto
qed

lemma shareGoCode_nonempty: "fst (shareGoCode config net c) \<noteq> Some []"
proof (cases "isGoCode (JsString c)")
  case True
  show ?thesis
    unfolding shareGoCode_valid [OF True]
    by (simp add: lit_def split: Outcome.split)
next
  case False
  show ?thesis
    unfolding shareGoCode_invalid [OF False] by simp
qed

lemma runAndShareGoCode_shareUrl: "shareUrl (fst (runAndShareGoCode config net c vet)) \<noteq> Some []"
proof (cases "isGoCode (JsString c)")
  case True
  show ?thesis
    unfolding runAndShareGoCode_valid [OF True]
    using shareGoCode_nonempty [of config net c] by simp
next
  case False
  show ?thesis
    unfolding runAndShareGoCode_invalid [OF False] by simp
qed

lemma formatRunAndShareResponse_text:
  assumes "shareUrl r \<noteq> Some []"
  shows "formatRunAndShareResponse r =
     formatRunResponse r @
     (case shareUrl r of
        Some u \<Rightarrow> lit ''\<newline>**Share URL:** '' @ u
      | None \<Rightarrow> lit ''\<newline>'' @ warningSign @ lit '' Failed to generate share URL'')"
  using assms by (cases "shareUrl r") (simp_all add: formatRunAndShareResponse_def)

lemma formatRunResponse_success_text:
  "formatRunResponse (Success out st su) =
     checkMark @ lit '' Code executed successfully!\<newline>\<newline>**Output:**\<newline>```\<newline>'' @
     (if out \<noteq> [] then out else lit ''(no output)'') @
     lit ''\<newline>```\<newline>\<newline>**Exit Code:** '' @ numberToString st"
  by (simp add: formatRunResponse_def formatSuccessResponse_def lit_def)

lemma formatRunResponse_failure:
  "formatRunResponse (Failure errs ec su) = formatFailureResponse (Failure errs ec su)"
  by (simp add: formatRunResponse_def)

lemma numberToString_small: "numberToString 0 = lit ''0''" "numberToString 2 = lit ''2''"
  by (simp_all add: numberToString_def natToString.simps digit_def lit_def)

section \<open>The response classifier\<close>

text \<open>
  C1, as the code has it: when the compile-error text \<open>Errors\<close> is non-empty after trimming
  white space, the classifier returns a failure whose errors are that text, untrimmed, and
  whose exit code is \<open>Status\<close>, whatever the events are.
\<close>

theorem compile_error_precedence:
  "trim (Errors r) \<noteq> [] \<Longrightarrow>
   processRunResponse (JsObject r) = Failure (Errors r) (Some (Status r)) None"
  by (simp add: processRunResponse_object)

theorem compile_error_precedence_witness:
  "trim (Errors syntaxErrorResponse) \<noteq> [] \<and>
   processRunResponse (JsObject syntaxErrorResponse) =
     Failure (lit ''syntax error: unexpected }'') (Some 2) None"
proof -
  have h: "trim (Errors syntaxErrorResponse) \<noteq> []"
    by (simp add: syntaxErrorResponse_def trim_def isWhiteSpace_def lit_def)
  show ?thesis
    using h compile_error_precedence [OF h] by (simp add: syntaxErrorResponse_def)
qed

text \<open>
  C1 as stated fails: a compile-error text of one space is non-empty, and the response is
  classified by its events, here as a success.
\<close>

theorem compile_error_nonempty_counterexample:
  "Errors blankErrorsResponse \<noteq> [] \<and>
   processRunResponse (JsObject blankErrorsResponse) = Success (lit ''hi'') 0 None \<and>
   processRunResponse (JsObject blankErrorsResponse)
     \<noteq> Failure (Errors blankErrorsResponse) (Some (Status blankErrorsResponse)) None"
  by (simp add: processRunResponse_object blankErrorsResponse_def eventsOrEmpty_def trim_def
      isWhiteSpace_def lit_def)

text \<open>
  C2: with an empty compile-error text and at least one event tagged \<open>stderr\<close>, the classifier
  returns a failure whose errors are the messages of the \<open>stderr\<close> events, concatenated in
  the order of the event list, and whose exit code is \<open>Status\<close>.
\<close>

theorem stderr_events_failure:
  assumes "Errors r = []" and "\<exists>e \<in> set (eventsOrEmpty (Events r)). Kind e = stderr"
  shows "processRunResponse (JsObject r) =
     Failure (concat (map Message (filter (\<lambda>e. Kind e = stderr) (eventsOrEmpty (Events r)))))
       (Some (Status r)) None"
proof -
  have "filter (\<lambda>e. Kind e = stderr) (eventsOrEmpty (Events r)) \<noteq> []"
    using assms(2) by (simp add: filter_empty_conv)
  then show ?thesis
    using assms(1) by (simp add: processRunResponse_object trim_Nil)
qed

theorem stderr_events_failure_witness:
  "Errors panicResponse = [] \<and>
   (\<exists>e \<in> set (eventsOrEmpty (Events panicResponse)). Kind e = stderr) \<and>
   processRunResponse (JsObject panicResponse) = Failure (lit ''panic: boom'') (Some 2) None"
proof -
  have h1: "Errors panicResponse = []"
    by (simp add: panicResponse_def)
  have h2: "\<exists>e \<in> set (eventsOrEmpty (Events panicResponse)). Kind e = stderr"
    by (simp add: panicResponse_def eventsOrEmpty_def)
  show ?thesis
    using h1 h2 stderr_events_failure [OF h1 h2]
    by (simp add: panicResponse_def eventsOrEmpty_def lit_def)
qed

text \<open>
  C3: with an empty compile-error text and no event tagged \<open>stderr\<close>, the classifier returns a
  success whose output is the non-empty messages of the \<open>stdout\<close> events, concatenated in the
  order of the event list, and whose exit code is \<open>Status\<close>.
\<close>

theorem stdout_events_success:
  assumes "Errors r = []" and "\<forall>e \<in> set (eventsOrEmpty (Events r)). Kind e \<noteq> stderr"
  shows "processRunResponse (JsObject r) =
     Success (concat (filter (\<lambda>m. m \<noteq> [])
                (map Message (filter (\<lambda>e. Kind e = stdout) (eventsOrEmpty (Events r))))))
       (Status r) None"
proof -
  have "filter (\<lambda>e. Kind e = stderr) (eventsOrEmpty (Events r)) = []"
    using assms(2) by (simp add: filter_empty_conv)
  then show ?thesis
    using assms(1) by (simp add: processRunResponse_object trim_Nil)
qed

theorem stdout_events_success_witness:
  "Errors helloResponse = [] \<and>
   filter (\<lambda>e. Kind e = stderr) (eventsOrEmpty (Events helloResponse)) = [] \<and>
   processRunResponse (JsObject helloResponse) = Success (lit ''hi there'') 0 None"
proof -
  have h1: "Errors helloResponse = []"
    by (simp add: helloResponse_def)
  have h2: "\<forall>e \<in> set (eventsOrEmpty (Events helloResponse)). Kind e \<noteq> stderr"
    by (simp add: helloResponse_def eventsOrEmpty_def)
  show ?thesis
    using h1 h2 stdout_events_success [OF h1 h2]
    by (simp add: helloResponse_def eventsOrEmpty_def lit_def)
qed

text \<open>
  C10: a response that is not an object (\<open>undefined\<close>, \<open>null\<close>, a boolean, a number, a
  string) is classified as a failure with the fixed message and no exit code; a missing or
  \<open>null\<close> \<open>Events\<close> field is classified as the empty array is; and a response with empty
  \<open>Errors\<close> and no events is a success with empty output and exit code \<open>Status\<close>.
\<close>

theorem classifier_degenerate_responses:
  "((\<forall>r. d \<noteq> JsObject r) \<longrightarrow>
      processRunResponse d = Failure (lit ''Invalid response from Go Playground API'') None None) \<and>
   (Events r \<in> {EventsAbsent, EventsNull} \<longrightarrow>
      processRunResponse (JsObject r) =
        processRunResponse (JsObject (r\<lparr>Events := EventsArray []\<rparr>))) \<and>
   (Errors r = [] \<and> Events r \<in> {EventsAbsent, EventsNull, EventsArray []} \<longrightarrow>
      processRunResponse (JsObject r) = Success [] (Status r) None)"
proof (intro conjI impI)
  assume "\<forall>r. d \<noteq> JsObject r"
  then have "falsy d \<or> typeof d \<noteq> lit ''object''"
    by (rule not_object_guard)
  then have "(falsy d \<or> typeof d \<noteq> lit ''object'') = True"
    by (rule eqTrueI)
  then show "processRunResponse d =
      Failure (lit ''Invalid response from Go Playground API'') None None"
    unfolding processRunResponse_def by (simp only: if_True)
next
  assume "Events r \<in> {EventsAbsent, EventsNull}"
  then show "processRunResponse (JsObject r) =
      processRunResponse (JsObject (r\<lparr>Events := EventsArray []\<rparr>))"
    by (auto simp: processRunResponse_object eventsOrEmpty_def)
next
  assume "Errors r = [] \<and> Events r \<in> {EventsAbsent, EventsNull, EventsArray []}"
  then show "processRunResponse (JsObject r) = Success [] (Status r) None"
    by (auto simp: processRunResponse_object eventsOrEmpty_def trim_Nil)
qed

theorem classifier_degenerate_responses_witness:
  "(\<forall>r. (JsNull :: ResponseData) \<noteq> JsObject r) \<and>
   processRunResponse JsNull = Failure (lit ''Invalid response from Go Playground API'') None None \<and>
   Errors noEventsResponse = [] \<and> Events noEventsResponse \<in> {EventsAbsent, EventsNull} \<and>
   processRunResponse (JsObject noEventsResponse) =
     processRunResponse (JsObject (noEventsResponse\<lparr>Events := EventsArray []\<rparr>)) \<and>
   processRunResponse (JsObject noEventsResponse) = Success [] 0 None"
proof -
  note t = classifier_degenerate_responses [of JsNull noEventsResponse]
  have h1: "\<forall>r. (JsNull :: ResponseData) \<noteq> JsObject r"
    by simp
  have h2: "Events noEventsResponse \<in> {EventsAbsent, EventsNull}"
    by (simp add: noEventsResponse_def)
  have h3: "Errors noEventsResponse = []"
    by (simp add: noEventsResponse_def)
  have h4: "Status noEventsResponse = 0"
    by (simp add: noEventsResponse_def)
  have h5: "Errors noEventsResponse = [] \<and>
            Events noEventsResponse \<in> {EventsAbsent, EventsNull, EventsArray []}"
    by (simp add: noEventsResponse_def)
  have a: "processRunResponse JsNull =
      Failure (lit ''Invalid response from Go Playground API'') None None"
    using t [THEN conjunct1] h1 by (rule mp)
  have b: "processRunResponse (JsObject noEventsResponse) =
      processRunResponse (JsObject (noEventsResponse\<lparr>Events := EventsArray []\<rparr>))"
    using t [THEN conjunct2, THEN conjunct1] h2 by (rule mp)
  have c: "processRunResponse (JsObject noEventsResponse) =
      Success [] (Status noEventsResponse) None"
    using t [THEN conjunct2, THEN conjunct2] h5 by (rule mp)
  show ?thesis
    using h1 a h3 h2 b c [unfolded h4] by (intro conjI)
qed

section \<open>Remote client and compositor\<close>

text \<open>
  C4: when the share operation yields no URL, the result of run-and-share is the result of
  the execute pipeline, with the same discriminant, output or errors and exit code, and
  without a share URL; in particular it is a success exactly when the execution is.
\<close>

theorem share_failure_keeps_run_result:
  assumes "fst (shareGoCode config net c) = None"
  shows "fst (runAndShareGoCode config net c vet) = fst (runGoCode config net c vet) \<and>
         shareUrl (fst (runAndShareGoCode config net c vet)) = None \<and>
         success (fst (runAndShareGoCode config net c vet)) =
           success (fst (runGoCode config net c vet))"
proof -
  have eq: "fst (runAndShareGoCode config net c vet) = fst (runGoCode config net c vet)"
  proof (cases "isGoCode (JsString c)")
    case True
    show ?thesis
      unfolding runAndShareGoCode_valid [OF True] fst_conv assms
      by (rule attach_None) (rule runGoCode_shareUrl)
  next
    case False
    show ?thesis
      unfolding runAndShareGoCode_invalid [OF False] runGoCode_invalid [OF False] ..
  qed
  show ?thesis
    unfolding eq by (simp add: runGoCode_shareUrl)
qed

theorem share_failure_keeps_run_result_witness:
  "fst (shareGoCode emptyConfig shareDownRemote exampleCode) = None \<and>
   fst (runAndShareGoCode emptyConfig shareDownRemote exampleCode True) =
     Success (lit ''hi there'') 0 None \<and>
   fst (runGoCode emptyConfig shareDownRemote exampleCode True) =
     Success (lit ''hi there'') 0 None"
proof -
  have v: "isGoCode (JsString exampleCode)"
    by (simp add: isGoCode_def exampleCode_def trim_def isWhiteSpace_def lit_def)
  have h: "fst (shareGoCode emptyConfig shareDownRemote exampleCode) = None"
    unfolding shareGoCode_valid [OF v] by (simp add: shareDownRemote_def)
  have r: "fst (runGoCode emptyConfig shareDownRemote exampleCode True) =
      Success (lit ''hi there'') 0 None"
    unfolding runGoCode_valid [OF v]
    by (simp add: shareDownRemote_def processRunResponse_object helloResponse_def
        eventsOrEmpty_def trim_Nil lit_def)
  show ?thesis
    using h r share_failure_keeps_run_result [OF h, of True] by simp
qed

text \<open>
  C7: the share URL is meant to be the configured frontend origin, then \<open>/p/\<close>, then the
  identifier the share endpoint answered with. The code interpolates \<open>response.data\<close>,
  which for an identifier that happens to be JSON text is the parsed value: for the
  identifier \<open>1e3\<close> the URL ends in \<open>/p/1000\<close>, for \<open>123456789e1\<close> in \<open>/p/1234567890\<close>, and
  run-and-share attaches that URL.
\<close>

theorem share_url_numeric_identifier:
  "bodyText shortNumericId = lit ''1e3'' \<and>
   fst (shareGoCode emptyConfig (answeringRemote shortNumericId) exampleCode) =
     Some (lit ''https://go.dev/play/p/1000'') \<and>
   fst (shareGoCode emptyConfig (answeringRemote shortNumericId) exampleCode) \<noteq>
     Some (lit ''https://go.dev/play'' @ lit ''/p/'' @ bodyText shortNumericId) \<and>
   fst (runAndShareGoCode emptyConfig (answeringRemote shortNumericId) exampleCode True) =
     Success (lit ''hi there'') 0 (Some (lit ''https://go.dev/play/p/1000'')) \<and>
   bodyText longNumericId = lit ''123456789e1'' \<and>
   fst (shareGoCode emptyConfig (answeringRemote longNumericId) exampleCode) =
     Some (lit ''https://go.dev/play/p/1234567890'') \<and>
   fst (shareGoCode emptyConfig (answeringRemote longNumericId) exampleCode) \<noteq>
     Some (lit ''https://go.dev/play'' @ lit ''/p/'' @ bodyText longNumericId)"
proof -
  note v = exampleCode_valid
  have b1: "bodyText shortNumericId = lit ''1e3''"
    by (simp add: shortNumericId_def)
  have b2: "bodyText longNumericId = lit ''123456789e1''"
    by (simp add: longNumericId_def)
  have n1: "toStringJs (responseData shortNumericId) = lit ''1000''"
    by (simp add: responseData_def shortNumericId_def numberToString_def natToString.simps
        digit_def lit_def)
  have n2: "toStringJs (responseData longNumericId) = lit ''1234567890''"
    by (simp add: responseData_def longNumericId_def numberToString_def natToString.simps
        digit_def lit_def)
  have p: "postShare (answeringRemote a)
      (createHttpClient (spreadConfig createDefaultConfig emptyConfig)) exampleCode = Resolved a" for a
    by (simp add: answeringRemote_def)
  have o: "(case frontendUrlOpt emptyConfig of Some f \<Rightarrow> f | None \<Rightarrow> lit ''https://go.dev/play'') =
      lit ''https://go.dev/play''"
    by (simp add: emptyConfig_def)
  have s1: "fst (shareGoCode emptyConfig (answeringRemote shortNumericId) exampleCode) =
      Some (lit ''https://go.dev/play/p/1000'')"
    unfolding shareGoCode_resolved [OF v p] o n1 by (simp add: lit_def)
  have s2: "fst (shareGoCode emptyConfig (answeringRemote longNumericId) exampleCode) =
      Some (lit ''https://go.dev/play/p/1234567890'')"
    unfolding shareGoCode_resolved [OF v p] o n2 by (simp add: lit_def)
  have d1: "Some (lit ''https://go.dev/play/p/1000'') \<noteq>
      Some (lit ''https://go.dev/play'' @ lit ''/p/'' @ bodyText shortNumericId)"
    unfolding b1 by (simp add: lit_def)
  have d2: "Some (lit ''https://go.dev/play/p/1234567890'') \<noteq>
      Some (lit ''https://go.dev/play'' @ lit ''/p/'' @ bodyText longNumericId)"
    unfolding b2 by (simp add: lit_def)
  have r: "fst (runGoCode emptyConfig (answeringRemote shortNumericId) exampleCode True) =
      Success (lit ''hi there'') 0 None"
    unfolding runGoCode_valid [OF v] by (simp add: answeringRemote_def hello_classified)
  have a: "fst (runAndShareGoCode emptyConfig (answeringRemote shortNumericId) exampleCode True) =
      Success (lit ''hi there'') 0 (Some (lit ''https://go.dev/play/p/1000''))"
    unfolding runAndShareGoCode_attaches [OF v] r s1 by simp
  show ?thesis
    using b1 s1 d1 [folded s1] a b2 s2 d2 [folded s2] by (intro conjI)
qed

text \<open>
  C6, as the code has it: when the request to the compile endpoint is rejected with an Axios
  error, \<open>runGoCode\<close> returns a failure, after that one call, whose errors read
  \<open>HTTP Error: <status> - <message>\<close>, with \<open>unknown\<close> for the status when the error carries
  none, and which has no exit code. No error code is attached to it.
\<close>

theorem transport_failure_result:
  assumes "isGoCode (JsString c)"
    and "postCompile net (createHttpClient (spreadConfig createDefaultConfig config))
           \<lparr>version = 2, body = c, withVet = vet\<rparr> = Rejected (AxiosError status msg)"
  shows "runGoCode config net c vet =
     (Failure (lit ''HTTP Error: '' @
               (case status of Some n \<Rightarrow> numberToString n | None \<Rightarrow> lit ''unknown'') @
               lit '' - '' @ msg) None None,
      [CompileCall (createHttpClient (spreadConfig createDefaultConfig config))
         \<lparr>version = 2, body = c, withVet = vet\<rparr>])"
  unfolding runGoCode_valid [OF assms(1)] assms(2)
  by (simp add: handleApiError_def)

theorem transport_failure_result_witness:
  "isGoCode (JsString exampleCode) \<and>
   runGoCode emptyConfig http500Remote exampleCode True =
     (Failure (lit ''HTTP Error: 500 - Request failed with status code 500'') None None,
      [CompileCall \<lparr>baseURL = lit ''https://play.golang.org'', timeoutMs = 30000\<rparr>
         \<lparr>version = 2, body = exampleCode, withVet = True\<rparr>]) \<and>
   runGoCode emptyConfig timeoutRemote exampleCode True =
     (Failure (lit ''HTTP Error: unknown - timeout of 30000ms exceeded'') None None,
      [CompileCall \<lparr>baseURL = lit ''https://play.golang.org'', timeoutMs = 30000\<rparr>
         \<lparr>version = 2, body = exampleCode, withVet = True\<rparr>])"
proof -
  note v = exampleCode_valid
  have cl: "createHttpClient (spreadConfig createDefaultConfig emptyConfig) =
      \<lparr>baseURL = lit ''https://play.golang.org'', timeoutMs = 30000\<rparr>"
    by (simp add: createHttpClient_def spreadConfig_def createDefaultConfig_def emptyConfig_def)
  have p1: "postCompile http500Remote (createHttpClient (spreadConfig createDefaultConfig emptyConfig))
      \<lparr>version = 2, body = exampleCode, withVet = True\<rparr> =
      Rejected (AxiosError (Some 500) (lit ''Request failed with status code 500''))"
    by (simp add: http500Remote_def)
  have p2: "postCompile timeoutRemote (createHttpClient (spreadConfig createDefaultConfig emptyConfig))
      \<lparr>version = 2, body = exampleCode, withVet = True\<rparr> =
      Rejected (AxiosError None (lit ''timeout of 30000ms exceeded''))"
    by (simp add: timeoutRemote_def)
  have e1: "lit ''HTTP Error: '' @ (case Some 500 of Some n \<Rightarrow> numberToString n | None \<Rightarrow> lit ''unknown'')
      @ lit '' - '' @ lit ''Request failed with status code 500'' =
      lit ''HTTP Error: 500 - Request failed with status code 500''"
    by (simp add: numberToString_500) (simp add: lit_def)
  have e2: "lit ''HTTP Error: '' @ (case None of Some n \<Rightarrow> numberToString n | None \<Rightarrow> lit ''unknown'')
      @ lit '' - '' @ lit ''timeout of 30000ms exceeded'' =
      lit ''HTTP Error: unknown - timeout of 30000ms exceeded''"
    by (simp add: lit_def)
  note t1 = transport_failure_result [OF v p1, unfolded cl e1]
  note t2 = transport_failure_result [OF v p2, unfolded cl e2]
  show ?thesis
    using v t1 t2 by (intro conjI)
qed

text \<open>
  C6 as stated fails: the failure for an HTTP 500 answer does not mention the error code
  \<open>NETWORK_ERROR\<close>.
\<close>

theorem transport_failure_no_error_code_counterexample:
  "runGoCode emptyConfig http500Remote exampleCode True =
     (Failure (lit ''HTTP Error: 500 - Request failed with status code 500'') None None,
      [CompileCall \<lparr>baseURL = lit ''https://play.golang.org'', timeoutMs = 30000\<rparr>
         \<lparr>version = 2, body = exampleCode, withVet = True\<rparr>]) \<and>
   \<not> sublist (errorCodeText NETWORK_ERROR)
       (errors (fst (runGoCode emptyConfig http500Remote exampleCode True)))"
proof -
  have cl: "createHttpClient (spreadConfig createDefaultConfig emptyConfig) =
      \<lparr>baseURL = lit ''https://play.golang.org'', timeoutMs = 30000\<rparr>"
    by (simp add: createHttpClient_def spreadConfig_def createDefaultConfig_def emptyConfig_def)
  have r: "runGoCode emptyConfig http500Remote exampleCode True =
     (Failure (lit ''HTTP Error: 500 - Request failed with status code 500'') None None,
      [CompileCall \<lparr>baseURL = lit ''https://play.golang.org'', timeoutMs = 30000\<rparr>
         \<lparr>version = 2, body = exampleCode, withVet = True\<rparr>])"
    unfolding runGoCode_valid [OF exampleCode_valid] cl
    by (simp add: http500Remote_def handleApiError_def numberToString_500) (simp add: lit_def)
  have s: "\<not> sublist (lit ''NETWORK_ERROR'')
      (lit ''HTTP Error: 500 - Request failed with status code 500'')"
    by code_simp
  show ?thesis
    unfolding r using s by simp
qed

section \<open>Tool router\<close>

text \<open>
  C5: when the \<open>code\<close> argument fails validation (it is missing, not a string, or empty after
  trimming), each of the three tools answers with the one error response
  \<open>Error [VALIDATION_ERROR]: Invalid arguments for <tool>\<close> and calls neither endpoint. The
  client functions, given a code string that fails validation, call neither endpoint
  either: validation yields an error with code \<open>VALIDATION_ERROR\<close>, run and run-and-share
  return a failure with that error's message, and share returns no URL.
\<close>

theorem validation_gate:
  "(\<not> isGoCode (getProperty (lit ''code'') args) \<longrightarrow>
      callTool net (TOOL_NAMES t) args =
        (\<lparr>content = [TextContent
            (lit ''Error [VALIDATION_ERROR]: Invalid arguments for '' @ TOOL_NAMES t)]\<rparr>, [])) \<and>
   (\<not> isGoCode (JsString c) \<longrightarrow>
      validateGoCode c =
        ResultFailure (createGoPlaygroundError
          (lit ''Invalid Go code: code must be a non-empty string'') VALIDATION_ERROR None) \<and>
      runGoCode config net c vet =
        (Failure (lit ''Invalid Go code: code must be a non-empty string'') None None, []) \<and>
      shareGoCode config net c = (None, []) \<and>
      runAndShareGoCode config net c vet =
        (Failure (lit ''Invalid Go code: code must be a non-empty string'') None None, []))"
proof (intro conjI impI)
  assume a: "\<not> isGoCode (getProperty (lit ''code'') args)"
  show "callTool net (TOOL_NAMES t) args =
        (\<lparr>content = [TextContent
            (lit ''Error [VALIDATION_ERROR]: Invalid arguments for '' @ TOOL_NAMES t)]\<rparr>, [])"
    unfolding callTool_def asToolName_TOOL_NAMES option.case
    by (rule router_invalid_args [OF a])
next
  assume b: "\<not> isGoCode (JsString c)"
  show "validateGoCode c =
        ResultFailure (createGoPlaygroundError
          (lit ''Invalid Go code: code must be a non-empty string'') VALIDATION_ERROR None)"
    by (rule validateGoCode_invalid [OF b])
  show "runGoCode config net c vet =
        (Failure (lit ''Invalid Go code: code must be a non-empty string'') None None, [])"
    by (rule runGoCode_invalid [OF b])
  show "shareGoCode config net c = (None, [])"
    by (rule shareGoCode_invalid [OF b])
  show "runAndShareGoCode config net c vet =
        (Failure (lit ''Invalid Go code: code must be a non-empty string'') None None, [])"
    by (rule runAndShareGoCode_invalid [OF b])
qed

theorem validation_gate_witness:
  "\<not> isGoCode (getProperty (lit ''code'') blankCodeArgs) \<and>
   callTool okRemote (lit ''run_go_code'') blankCodeArgs =
     (\<lparr>content = [TextContent
        (lit ''Error [VALIDATION_ERROR]: Invalid arguments for run_go_code'')]\<rparr>, []) \<and>
   callTool okRemote (lit ''share_go_code'') blankCodeArgs =
     (\<lparr>content = [TextContent
        (lit ''Error [VALIDATION_ERROR]: Invalid arguments for share_go_code'')]\<rparr>, []) \<and>
   callTool okRemote (lit ''run_and_share_go_code'') blankCodeArgs =
     (\<lparr>content = [TextContent
        (lit ''Error [VALIDATION_ERROR]: Invalid arguments for run_and_share_go_code'')]\<rparr>, []) \<and>
   \<not> isGoCode (JsString []) \<and>
   runAndShareGoCode emptyConfig okRemote [] True =
     (Failure (lit ''Invalid Go code: code must be a non-empty string'') None None, [])"
proof -
  have h1: "\<not> isGoCode (getProperty (lit ''code'') blankCodeArgs)"
    by (simp add: blankCodeArgs_def getProperty_def isGoCode_def trim_def isWhiteSpace_def lit_def)
  have h2: "\<not> isGoCode (JsString [])"
    by (simp add: isGoCode_def trim_Nil)
  have e: "lit ''Error [VALIDATION_ERROR]: Invalid arguments for '' @ TOOL_NAMES RUN_GO_CODE =
             lit ''Error [VALIDATION_ERROR]: Invalid arguments for run_go_code''"
    "lit ''Error [VALIDATION_ERROR]: Invalid arguments for '' @ TOOL_NAMES SHARE_GO_CODE =
             lit ''Error [VALIDATION_ERROR]: Invalid arguments for share_go_code''"
    "lit ''Error [VALIDATION_ERROR]: Invalid arguments for '' @ TOOL_NAMES RUN_AND_SHARE_GO_CODE =
             lit ''Error [VALIDATION_ERROR]: Invalid arguments for run_and_share_go_code''"
    by (simp_all add: lit_def)
  note t1 = validation_gate [of blankCodeArgs okRemote RUN_GO_CODE "[]" emptyConfig True]
  note t2 = validation_gate [of blankCodeArgs okRemote SHARE_GO_CODE "[]" emptyConfig True]
  note t3 = validation_gate [of blankCodeArgs okRemote RUN_AND_SHARE_GO_CODE "[]" emptyConfig True]
  have a1: "callTool okRemote (lit ''run_go_code'') blankCodeArgs =
     (\<lparr>content = [TextContent
        (lit ''Error [VALIDATION_ERROR]: Invalid arguments for run_go_code'')]\<rparr>, [])"
    using t1 [THEN conjunct1, THEN mp, OF h1] unfolding e by simp
  have a2: "callTool okRemote (lit ''share_go_code'') blankCodeArgs =
     (\<lparr>content = [TextContent
        (lit ''Error [VALIDATION_ERROR]: Invalid arguments for share_go_code'')]\<rparr>, [])"
    using t2 [THEN conjunct1, THEN mp, OF h1] unfolding e by simp
  have a3: "callTool okRemote (lit ''run_and_share_go_code'') blankCodeArgs =
     (\<lparr>content = [TextContent
        (lit ''Error [VALIDATION_ERROR]: Invalid arguments for run_and_share_go_code'')]\<rparr>, [])"
    using t3 [THEN conjunct1, THEN mp, OF h1] unfolding e by simp
  have b: "runAndShareGoCode emptyConfig okRemote [] True =
     (Failure (lit ''Invalid Go code: code must be a non-empty string'') None None, [])"
    using t1 [THEN conjunct2, THEN mp, OF h2] by (elim conjE)
  show ?thesis
    using h1 a1 a2 a3 h2 b by (intro conjI)
qed

text \<open>
  C8: for every tool name other than the three literals, the request handler answers with
  the error response \<open>Error [VALIDATION_ERROR]: Unknown tool: <name>\<close> and calls neither
  endpoint.
\<close>

theorem unknown_tool_rejected:
  assumes "name \<notin> {lit ''run_go_code'', lit ''share_go_code'', lit ''run_and_share_go_code''}"
  shows "callTool net name args =
     (\<lparr>content = [TextContent (lit ''Error [VALIDATION_ERROR]: Unknown tool: '' @ name)]\<rparr>, [])"
  unfolding callTool_def asToolName_unknown [OF assms] option.case validation_error_text
  by (simp add: lit_def)

theorem unknown_tool_rejected_witness:
  "lit ''delete_everything'' \<notin>
     {lit ''run_go_code'', lit ''share_go_code'', lit ''run_and_share_go_code''} \<and>
   callTool okRemote (lit ''delete_everything'') exampleArgs =
     (\<lparr>content = [TextContent
        (lit ''Error [VALIDATION_ERROR]: Unknown tool: delete_everything'')]\<rparr>, [])"
proof -
  have h: "lit ''delete_everything'' \<notin>
     {lit ''run_go_code'', lit ''share_go_code'', lit ''run_and_share_go_code''}"
    by (simp add: lit_def)
  have e: "lit ''Error [VALIDATION_ERROR]: Unknown tool: '' @ lit ''delete_everything'' =
      lit ''Error [VALIDATION_ERROR]: Unknown tool: delete_everything''"
    by (simp add: lit_def)
  show ?thesis
    using h unknown_tool_rejected [OF h, of okRemote exampleArgs, unfolded e] by (intro conjI)
qed

section \<open>Presenter\<close>

text \<open>
  C9: the report of a run-and-share result is the execution report followed by the share
  line, which is the \<open>Share URL\<close> line when the result has a share URL and the warning line
  when it has none. The execution report of a success is the success marker, the output
  section and the \<open>Exit Code\<close> line; that of a failure is the failure report: the marker, the
  errors section and, after the closing fence, the \<open>Exit Code\<close> line when an exit code is
  present. A failure report ends with an \<open>Exit Code\<close> line if and only if an exit code is
  present.
\<close>

theorem report_layout:
  "formatRunAndShareResponse (fst (runAndShareGoCode config net c vet)) =
     formatRunResponse (fst (runAndShareGoCode config net c vet)) @
     (case shareUrl (fst (runAndShareGoCode config net c vet)) of
        Some u \<Rightarrow> lit ''\<newline>**Share URL:** '' @ u
      | None \<Rightarrow> lit ''\<newline>'' @ warningSign @ lit '' Failed to generate share URL'') \<and>
   formatRunResponse (Success out st u) =
     checkMark @ lit '' Code executed successfully!\<newline>\<newline>**Output:**\<newline>```\<newline>'' @
     (if out \<noteq> [] then out else lit ''(no output)'') @
     lit ''\<newline>```\<newline>\<newline>**Exit Code:** '' @ numberToString st \<and>
   formatRunResponse (Failure errs ec su) = formatFailureResponse (Failure errs ec su) \<and>
   formatFailureResponse (Failure errs ec su) =
     crossMark @ lit '' Code execution failed!\<newline>\<newline>**Errors:**\<newline>```\<newline>'' @ errs @
     lit ''\<newline>```\<newline>'' @
     (case ec of Some n \<Rightarrow> lit ''\<newline>**Exit Code:** '' @ numberToString n | None \<Rightarrow> []) \<and>
   ((\<exists>n. suffix (lit ''\<newline>**Exit Code:** '' @ numberToString n)
           (formatFailureResponse (Failure errs ec su))) \<longleftrightarrow> ec \<noteq> None)"
  using formatRunAndShareResponse_text [OF runAndShareGoCode_shareUrl]
    formatRunResponse_success_text formatRunResponse_failure
    formatFailureResponse_text exit_code_line_iff
  by (intro conjI)

theorem report_layout_witness:
  "formatRunAndShareResponse (fst (runAndShareGoCode emptyConfig okRemote exampleCode True)) =
     checkMark @ lit '' Code executed successfully!\<newline>\<newline>**Output:**\<newline>```\<newline>hi there\<newline>```\<newline>\<newline>**Exit Code:** 0\<newline>**Share URL:** https://go.dev/play/p/abc123'' \<and>
   formatRunAndShareResponse (fst (runAndShareGoCode emptyConfig shareDownRemote exampleCode True)) =
     checkMark @ lit '' Code executed successfully!\<newline>\<newline>**Output:**\<newline>```\<newline>hi there\<newline>```\<newline>\<newline>**Exit Code:** 0\<newline>'' @
     warningSign @ lit '' Failed to generate share URL'' \<and>
   formatRunAndShareResponse (fst (runAndShareGoCode emptyConfig syntaxErrorRemote exampleCode True)) =
     crossMark @ lit '' Code execution failed!\<newline>\<newline>**Errors:**\<newline>```\<newline>syntax error: unexpected }\<newline>```\<newline>\<newline>**Exit Code:** 2\<newline>**Share URL:** https://go.dev/play/p/abc123'' \<and>
   formatRunAndShareResponse (fst (runAndShareGoCode emptyConfig timeoutRemote exampleCode True)) =
     crossMark @ lit '' Code execution failed!\<newline>\<newline>**Errors:**\<newline>```\<newline>HTTP Error: unknown - timeout of 30000ms exceeded\<newline>```\<newline>\<newline>'' @
     warningSign @ lit '' Failed to generate share URL'' \<and>
   formatFailureResponse (Failure (lit ''boom'') (Some 2) None) =
     crossMark @ lit '' Code execution failed!\<newline>\<newline>**Errors:**\<newline>```\<newline>boom\<newline>```\<newline>\<newline>**Exit Code:** 2'' \<and>
   formatFailureResponse (Failure (lit ''boom'') None None) =
     crossMark @ lit '' Code execution failed!\<newline>\<newline>**Errors:**\<newline>```\<newline>boom\<newline>```\<newline>''"
proof -
  note t1 = report_layout [of emptyConfig okRemote exampleCode True "lit ''hi there''" 0
      "Some (lit ''https://go.dev/play/p/abc123'')" "lit ''boom''" "Some 2" None]
  note t2 = report_layout [of emptyConfig shareDownRemote exampleCode True "lit ''hi there''" 0
      None "lit ''boom''" None None]
  note t3 = report_layout [of emptyConfig syntaxErrorRemote exampleCode True "[]" 0 None
      "lit ''syntax error: unexpected }''" "Some 2" "Some (lit ''https://go.dev/play/p/abc123'')"]
  note t4 = report_layout [of emptyConfig timeoutRemote exampleCode True "[]" 0 None
      "lit ''HTTP Error: unknown - timeout of 30000ms exceeded''" None None]
  have a: "formatRunAndShareResponse (fst (runAndShareGoCode emptyConfig okRemote exampleCode True)) =
     checkMark @ lit '' Code executed successfully!\<newline>\<newline>**Output:**\<newline>```\<newline>hi there\<newline>```\<newline>\<newline>**Exit Code:** 0\<newline>**Share URL:** https://go.dev/play/p/abc123''"
    using t1 [THEN conjunct1]
    unfolding runAndShare_ok_example t1 [THEN conjunct2, THEN conjunct1] numberToString_small
    by (simp add: lit_def)
  have b: "formatRunAndShareResponse (fst (runAndShareGoCode emptyConfig shareDownRemote exampleCode True)) =
     checkMark @ lit '' Code executed successfully!\<newline>\<newline>**Output:**\<newline>```\<newline>hi there\<newline>```\<newline>\<newline>**Exit Code:** 0\<newline>'' @
     warningSign @ lit '' Failed to generate share URL''"
    using t2 [THEN conjunct1]
    unfolding runAndShare_share_down_example t2 [THEN conjunct2, THEN conjunct1]
      numberToString_small
    by (simp add: lit_def)
  have c: "formatRunAndShareResponse (fst (runAndShareGoCode emptyConfig syntaxErrorRemote exampleCode True)) =
     crossMark @ lit '' Code execution failed!\<newline>\<newline>**Errors:**\<newline>```\<newline>syntax error: unexpected }\<newline>```\<newline>\<newline>**Exit Code:** 2\<newline>**Share URL:** https://go.dev/play/p/abc123''"
    using t3 [THEN conjunct1, unfolded runAndShare_syntax_error_example,
        unfolded t3 [THEN conjunct2, THEN conjunct2, THEN conjunct1],
        unfolded t3 [THEN conjunct2, THEN conjunct2, THEN conjunct2, THEN conjunct1]]
    unfolding runAndShare_syntax_error_example
    by (simp add: numberToString_small lit_def)
  have d: "formatRunAndShareResponse (fst (runAndShareGoCode emptyConfig timeoutRemote exampleCode True)) =
     crossMark @ lit '' Code execution failed!\<newline>\<newline>**Errors:**\<newline>```\<newline>HTTP Error: unknown - timeout of 30000ms exceeded\<newline>```\<newline>\<newline>'' @
     warningSign @ lit '' Failed to generate share URL''"
    using t4 [THEN conjunct1, unfolded runAndShare_timeout_example,
        unfolded t4 [THEN conjunct2, THEN conjunct2, THEN conjunct1],
        unfolded t4 [THEN conjunct2, THEN conjunct2, THEN conjunct2, THEN conjunct1]]
    unfolding runAndShare_timeout_example
    by (simp add: lit_def)
  have e: "formatFailureResponse (Failure (lit ''boom'') (Some 2) None) =
     crossMark @ lit '' Code execution failed!\<newline>\<newline>**Errors:**\<newline>```\<newline>boom\<newline>```\<newline>\<newline>**Exit Code:** 2''"
    using t1 [THEN conjunct2, THEN conjunct2, THEN conjunct2, THEN conjunct1]
    by (simp add: numberToString_small) (simp add: lit_def)
  have f: "formatFailureResponse (Failure (lit ''boom'') None None) =
     crossMark @ lit '' Code execution failed!\<newline>\<newline>**Errors:**\<newline>```\<newline>boom\<newline>```\<newline>''"
    using t2 [THEN conjunct2, THEN conjunct2, THEN conjunct2, THEN conjunct1]
    by (simp add: lit_def)
  show ?thesis
    using a b c d e f by (intro conjI)
qed

end
